theory Spec2Isabelle
  imports Complex_Main
begin

chapter \<open>The embedding\<close>

section \<open>The virtual document provider (extension/vscode/src/virtualfs/provider.ts)\<close>

text \<open>
  \<^verbatim>\<open>AletheiaDocumentProvider\<close> keeps a \<^verbatim>\<open>Map<string, string>\<close> from the string form of
  a URI to the content of the virtual document, and an event emitter that \<^verbatim>\<open>setContent\<close>
  fires. The URI type belongs to the editor; the provider reads nothing of a URI but
  \<^verbatim>\<open>uri.toString()\<close>, so the model takes that function as the parameter \<open>toString\<close>.
  The emitter is modelled by the list of the URIs fired so far.
\<close>

record 'u AletheiaDocumentProvider =
  documents :: "string \<rightharpoonup> string"
  onDidChange_fired :: "'u list"

definition new_provider :: "'u AletheiaDocumentProvider" where
  "new_provider = \<lparr>documents = Map.empty, onDidChange_fired = []\<rparr>"

definition setContent ::
  "('u \<Rightarrow> string) \<Rightarrow> 'u \<Rightarrow> string \<Rightarrow> 'u AletheiaDocumentProvider \<Rightarrow> 'u AletheiaDocumentProvider"
where
  "setContent toString uri content p =
     p\<lparr>documents := (documents p)(toString uri \<mapsto> content),
       onDidChange_fired := onDidChange_fired p @ [uri]\<rparr>"

text \<open>
  \<^verbatim>\<open>return this.documents.get(uri.toString()) || ''\<close>: the empty string stands in for
  \<^verbatim>\<open>undefined\<close> and for every other falsy value, of which a string has one, the empty
  string itself.
\<close>

definition provideTextDocumentContent ::
  "('u \<Rightarrow> string) \<Rightarrow> 'u AletheiaDocumentProvider \<Rightarrow> 'u \<Rightarrow> string"
where
  "provideTextDocumentContent toString p uri =
     (case documents p (toString uri) of
        None \<Rightarrow> ''''
      | Some content \<Rightarrow> (if content = '''' then '''' else content))"

definition removeDocument ::
  "('u \<Rightarrow> string) \<Rightarrow> 'u \<Rightarrow> 'u AletheiaDocumentProvider \<Rightarrow> 'u AletheiaDocumentProvider"
where
  "removeDocument toString uri p = p\<lparr>documents := (documents p)(toString uri := None)\<rparr>"

definition clear :: "'u AletheiaDocumentProvider \<Rightarrow> 'u AletheiaDocumentProvider" where
  "clear p = p\<lparr>documents := Map.empty\<rparr>"

section \<open>Temporary documents (extension/vscode/src/virtualfs/tempDocuments.ts)\<close>

text \<open>
  The module-level \<^verbatim>\<open>Map<string, TempDocument>\<close> is passed explicitly. The URI of the
  untitled document the editor opens and the current date are inputs of
  \<^verbatim>\<open>createTempDocument\<close>. A lookup of a missing id gives \<^verbatim>\<open>undefined\<close>, here \<open>None\<close>.
\<close>

record 'u TempDocument =
  td_uri :: 'u
  td_documentId :: string
  td_createdAt :: nat
  td_content :: string

type_synonym 'u tempDocuments = "string \<rightharpoonup> 'u TempDocument"

definition createTempDocument ::
  "'u \<Rightarrow> nat \<Rightarrow> string \<Rightarrow> string \<Rightarrow> 'u tempDocuments \<Rightarrow> 'u tempDocuments"
where
  "createTempDocument doc_uri now documentId content temp =
     temp(documentId \<mapsto>
       \<lparr>td_uri = doc_uri, td_documentId = documentId, td_createdAt = now,
        td_content = content\<rparr>)"

definition getTempDocument :: "'u tempDocuments \<Rightarrow> string \<Rightarrow> 'u TempDocument option" where
  "getTempDocument temp documentId = temp documentId"

definition removeTempDocument :: "string \<Rightarrow> 'u tempDocuments \<Rightarrow> 'u tempDocuments" where
  "removeTempDocument documentId temp = temp(documentId := None)"

definition clearTempDocuments :: "'u tempDocuments \<Rightarrow> 'u tempDocuments" where
  "clearTempDocuments temp = Map.empty"

section \<open>The file type check of the parse command (extension/vscode/src/commands/parseFile.ts)\<close>

text \<open>
  A file the command is asked to parse is a path together with the bytes stored there;
  \<^verbatim>\<open>isSupportedFile\<close> is handed the URI and reads its \<^verbatim>\<open>fsPath\<close> only.
  Characters are bytes here, so \<^verbatim>\<open>toLowerCase\<close> is modelled on the ASCII letters.
\<close>

record SourceFile =
  fsPath :: string
  file_content :: string

definition ascii_lower :: "char \<Rightarrow> char" where
  "ascii_lower c =
     (case map_of (zip ''ABCDEFGHIJKLMNOPQRSTUVWXYZ'' ''abcdefghijklmnopqrstuvwxyz'') c of
        None \<Rightarrow> c
      | Some l \<Rightarrow> l)"

definition toLowerCase :: "string \<Rightarrow> string" where
  "toLowerCase s = map ascii_lower s"

text \<open>\<^verbatim>\<open>s.split(sep)\<close> for a one-character separator: never an empty array.\<close>

fun split :: "char \<Rightarrow> string \<Rightarrow> string list" where
  "split sep [] = [] # []"
| "split sep (c # cs) =
     (if c = sep then [] # split sep cs
      else (case split sep cs of [] \<Rightarrow> [c] # [] | p # ps \<Rightarrow> (c # p) # ps))"

text \<open>\<^verbatim>\<open>array.pop()\<close> as an expression: the last element, \<^verbatim>\<open>undefined\<close> on an empty array.\<close>

definition pop :: "'a list \<Rightarrow> 'a option" where
  "pop xs = (if xs = [] then None else Some (last xs))"

definition isSupportedFile :: "SourceFile \<Rightarrow> bool" where
  "isSupportedFile uri =
     (let ext = pop (split CHR ''.'' (toLowerCase (fsPath uri)))
      in (case ext of None \<Rightarrow> '''' | Some e \<Rightarrow> e)
           \<in> set [''pdf'', ''png'', ''jpg'', ''jpeg'', ''tiff''])"

text \<open>
  What the check reads off a path, in words: the text after the last dot, the whole
  path when it has no dot.
\<close>

definition after_last_dot :: "string \<Rightarrow> string" where
  "after_last_dot s = rev (takeWhile (\<lambda>c. c \<noteq> CHR ''.'') (rev s))"

section \<open>The webview renderer (src/unnamed/part_006)\<close>

abbreviation dq :: char where "dq \<equiv> CHR 0x22"
abbreviation sq :: char where "sq \<equiv> CHR 0x27"

text \<open>\<^verbatim>\<open>text.replace(/c/g, r)\<close> for a single character \<open>c\<close>.\<close>

definition replaceAll :: "char \<Rightarrow> string \<Rightarrow> string \<Rightarrow> string" where
  "replaceAll c r s = concat (map (\<lambda>x. if x = c then r else [x]) s)"

definition escapeHtml :: "string \<Rightarrow> string" where
  "escapeHtml s =
     replaceAll sq ''&#39;''
       (replaceAll dq ''&quot;''
          (replaceAll CHR ''>'' ''&gt;''
             (replaceAll CHR ''<'' ''&lt;''
                (replaceAll CHR ''&'' ''&amp;'' s))))"

text \<open>The entity of one character, as the doc comment of \<^verbatim>\<open>escapeHtml\<close> has it.\<close>

definition html_entity :: "char \<Rightarrow> string" where
  "html_entity c =
     (if c = CHR ''&'' then ''&amp;''
      else if c = CHR ''<'' then ''&lt;''
      else if c = CHR ''>'' then ''&gt;''
      else if c = dq then ''&quot;''
      else if c = sq then ''&#39;''
      else [c])"

definition markup_char :: "char \<Rightarrow> bool" where
  "markup_char c \<longleftrightarrow> c = CHR ''<'' \<or> c = CHR ''>'' \<or> c = dq \<or> c = sq"

text \<open>
  The fields of a block that \<^verbatim>\<open>renderBlocks\<close> reads. The confidence is a JavaScript
  number; \<open>percent\<close> stands for \<^verbatim>\<open>(block.confidence * 100).toFixed(1)\<close>.
\<close>

record 'n BlockResult =
  br_type :: string
  br_text :: string
  br_confidence :: 'n

definition renderBlock :: "('n \<Rightarrow> string) \<Rightarrow> 'n BlockResult \<Rightarrow> string" where
  "renderBlock percent block =
     ''\<newline>        <div class='' @ [dq] @ ''block '' @
     (if br_type block = ''heading'' then ''block-heading'' else '''') @ [dq] @
     ''\<newline>             onclick='' @ [dq] @ ''this.classList.toggle('' @ [sq] @ ''selected'' @ [sq] @ '')'' @ [dq] @ ''>'' @
     ''\<newline>            <div class='' @ [dq] @ ''block-actions'' @ [dq] @ ''>'' @
     ''\<newline>                <button onclick='' @ [dq] @ ''insertBlock('' @ [sq] @
     escapeHtml (br_text block) @
     [sq] @ '')'' @ [dq] @ ''>Insert</button>'' @
     ''\<newline>                <button onclick='' @ [dq] @ ''copyBlock('' @ [sq] @
     escapeHtml (br_text block) @
     [sq] @ '')'' @ [dq] @ ''>Copy</button>'' @
     ''\<newline>            </div>'' @
     ''\<newline>            <div class='' @ [dq] @ ''block-text'' @ [dq] @ ''>'' @
     escapeHtml (br_text block) @
     ''</div>'' @
     ''\<newline>            <div class='' @ [dq] @ ''confidence'' @ [dq] @ ''>Confidence: '' @
     percent (br_confidence block) @
     ''%</div>'' @
     ''\<newline>        </div>'' @
     ''\<newline>    ''"

definition renderBlocks :: "('n \<Rightarrow> string) \<Rightarrow> 'n BlockResult list \<Rightarrow> string" where
  "renderBlocks percent blocks = concat (map (renderBlock percent) blocks)"

section \<open>The document model and the ingestion loops (docs/development/files_created.md)\<close>

text \<open>
  The fields are those the excerpts of \<^verbatim>\<open>controller.py\<close> pass to \<^verbatim>\<open>Block\<close> and
  \<^verbatim>\<open>BoundingBox\<close>. Coordinates and confidences are Python floats; they are carried as
  rationals and nothing below computes with them beyond a subtraction.
\<close>

record BoundingBox =
  bbox_x :: rat
  bbox_y :: rat
  bbox_width :: rat
  bbox_height :: rat

record Block =
  block_id :: string
  block_type :: string
  block_content :: string
  block_bbox :: BoundingBox
  block_confidence :: rat

record Page =
  page_number :: nat
  page_width :: rat
  page_height :: rat
  page_blocks :: "Block list"

record Document =
  document_id :: string
  pages :: "Page list"

text \<open>
  What the PDF library hands over: \<^verbatim>\<open>pdf_page.get_text("blocks")\<close> is a list of tuples
  \<^verbatim>\<open>(x0, y0, x1, y1, text, block_no, block_type)\<close>, one list for each page of the opened
  document.
\<close>

record TextBlock =
  tb_x0 :: rat
  tb_y0 :: rat
  tb_x1 :: rat
  tb_y1 :: rat
  tb_text :: string
  tb_block_no :: int
  tb_block_type :: int

record PdfPage =
  pdf_page_width :: rat
  pdf_page_height :: rat
  get_text_blocks :: "TextBlock list"

text \<open>Python's \<^verbatim>\<open>str\<close> of a natural number, as the f-string of a block id formats it.\<close>

definition digit_char :: "nat \<Rightarrow> char" where
  "digit_char d = ''0123456789'' ! d"

fun str :: "nat \<Rightarrow> string" where
  "str n = (if n < 10 then [digit_char n] else str (n div 10) @ [digit_char (n mod 10)])"

declare str.simps [simp del]

text \<open>\<^verbatim>\<open>text.strip()\<close>, on the ASCII whitespace characters.\<close>

definition isspace :: "char \<Rightarrow> bool" where
  "isspace c \<longleftrightarrow>
     c \<in> set [CHR 0x20, CHR 0x09, CHR 0x0A, CHR 0x0B, CHR 0x0C, CHR 0x0D,
               CHR 0x1C, CHR 0x1D, CHR 0x1E, CHR 0x1F]"

definition strip :: "string \<Rightarrow> string" where
  "strip s = rev (dropWhile isspace (rev (dropWhile isspace s)))"

text \<open>
  The body of the inner loop of \<^verbatim>\<open>_ingest_pdf\<close>: one \<^verbatim>\<open>Block\<close> for the tuple at
  position \<open>idx\<close> of page \<open>page_num\<close> (counted from 0). The excerpt elides the width and
  height arguments of the bounding box; they are taken to be the extent of the tuple.
\<close>

definition pdf_block :: "nat \<Rightarrow> nat \<Rightarrow> TextBlock \<Rightarrow> Block" where
  "pdf_block page_num idx block =
     \<lparr>block_id = ''p'' @ str (page_num + 1) @ ''_b'' @ str idx,
      block_type = (if tb_block_type block = 0 then ''paragraph'' else ''figure''),
      block_content = strip (tb_text block),
      block_bbox = \<lparr>bbox_x = tb_x0 block, bbox_y = tb_y0 block,
                    bbox_width = tb_x1 block - tb_x0 block,
                    bbox_height = tb_y1 block - tb_y0 block\<rparr>,
      block_confidence = 1\<rparr>"

text \<open>\<^verbatim>\<open>for idx, block in enumerate(text_blocks): blocks.append(Block(...))\<close>\<close>

definition pdf_page_blocks :: "nat \<Rightarrow> TextBlock list \<Rightarrow> Block list" where
  "pdf_page_blocks page_num text_blocks =
     map (\<lambda>(idx, block). pdf_block page_num idx block) (enumerate 0 text_blocks)"

text \<open>
  Modelled from the spec: the excerpt of \<^verbatim>\<open>_ingest_pdf\<close> shows the loop
  \<^verbatim>\<open>for page_num in range(len(pdf_document))\<close> and the blocks it builds, but not the
  statement that wraps the blocks of a page into a \<^verbatim>\<open>Page\<close>. The page is built as the
  data model of the spec has it: 1-based \<open>page_number\<close>, the size of the page, and its
  blocks in the order they were appended.
\<close>

definition ingest_pdf :: "PdfPage list \<Rightarrow> Page list" where
  "ingest_pdf pdf_document =
     map (\<lambda>page_num.
            let pdf_page = pdf_document ! page_num
            in \<lparr>page_number = page_num + 1,
                page_width = pdf_page_width pdf_page,
                page_height = pdf_page_height pdf_page,
                page_blocks = pdf_page_blocks page_num (get_text_blocks pdf_page)\<rparr>)
         [0..<length pdf_document]"

text \<open>
  The block list of \<^verbatim>\<open>_ingest_image\<close>: \<open>ocr_text\<close> is what
  \<^verbatim>\<open>pytesseract.image_to_string(image)\<close> returned, \<open>width\<close> and \<open>height\<close> the size
  of the image.
\<close>

definition image_blocks :: "string \<Rightarrow> rat \<Rightarrow> rat \<Rightarrow> Block list" where
  "image_blocks ocr_text width height =
     [\<lparr>block_id = ''b1'',
       block_type = ''paragraph'',
       block_content = strip ocr_text,
       block_bbox = \<lparr>bbox_x = 0, bbox_y = 0, bbox_width = width, bbox_height = height\<rparr>,
       block_confidence = 4 / 5\<rparr>]"

text \<open>
  Modelled from the spec: the excerpt of \<^verbatim>\<open>_ingest_image\<close> ends with the block list; the
  \<^verbatim>\<open>Page\<close> around it is missing. The image variant of the loader "treats the whole
  input as a single page", so the one page has number 1.
\<close>

definition ingest_image :: "string \<Rightarrow> rat \<Rightarrow> rat \<Rightarrow> Page list" where
  "ingest_image ocr_text width height =
     [\<lparr>page_number = 1, page_width = width, page_height = height,
       page_blocks = image_blocks ocr_text width height\<rparr>]"

text \<open>The block id as the Block Assembler of the spec assigns it: \<^verbatim>\<open>p{page}_b{index}\<close>.\<close>

definition spec_block_id :: "nat \<Rightarrow> nat \<Rightarrow> string" where
  "spec_block_id page index = ''p'' @ str page @ ''_b'' @ str index"

section \<open>The document store (docs/development/files_created.md)\<close>

text \<open>
  \<^verbatim>\<open>DocumentStore\<close> holds a dictionary from document id to document. \<^verbatim>\<open>get\<close> is
  \<^verbatim>\<open>self._documents.get(document_id)\<close>: \<^verbatim>\<open>None\<close> for a missing id.
\<close>

record DocumentStore =
  store_documents :: "string \<rightharpoonup> Document"

definition new_store :: DocumentStore where
  "new_store = \<lparr>store_documents = Map.empty\<rparr>"

definition save :: "Document \<Rightarrow> DocumentStore \<Rightarrow> DocumentStore" where
  "save document s =
     s\<lparr>store_documents := (store_documents s)(document_id document \<mapsto> document)\<rparr>"

definition get :: "DocumentStore \<Rightarrow> string \<Rightarrow> Document option" where
  "get s doc_id = store_documents s doc_id"

section \<open>The loader's detection of the document type\<close>

text \<open>
  Modelled from the spec: the request that reaches the pipeline, "a request carrying
  {filename, content bytes, mime_type hint, options}". No source builds or reads it
  but the client of the editor, which sends the file name and the content.
\<close>

record ParseRequest =
  request_filename :: string
  request_content :: string
  request_mime_type :: string

text \<open>
  Modelled from the spec: the typed errors of loading, \<open>UnsupportedDocumentError\<close> and
  \<open>CorruptDocumentError\<close>, which are not among the sources.
\<close>

datatype loader_error = UnsupportedDocumentError | CorruptDocumentError

text \<open>
  Modelled from the spec: the capability \<^verbatim>\<open>detect(bytes) -> mime_type\<close> of the Loader is
  not among the sources; of the loader they hold one sentence of the completion summary,
  "Automatic loader selection based on file extension". "Detection is by content
  sniffing, not filename extension": the bytes are handed to the recogniser of the
  variants, the parameter \<open>sniff\<close>, which gives the MIME type it recognises in them; bytes
  that no variant recognises are unsupported.
\<close>

definition detect :: "(string \<Rightarrow> string option) \<Rightarrow> string \<Rightarrow> loader_error + string" where
  "detect sniff bytes =
     (case sniff bytes of
        None \<Rightarrow> Inl UnsupportedDocumentError
      | Some mime_type \<Rightarrow> Inr mime_type)"

text \<open>
  Modelled from the spec: the detection stage for a request, not among the sources. The
  Loader is given the content of the request.
\<close>

definition detect_request ::
  "(string \<Rightarrow> string option) \<Rightarrow> ParseRequest \<Rightarrow> loader_error + string"
where
  "detect_request sniff request = detect sniff (request_content request)"

section \<open>The query endpoint (the plan of \<^verbatim>\<open>sidecar/app/api/query.py\<close>)\<close>

text \<open>
  Modelled from the spec: the models \<^verbatim>\<open>PerceptionQuery\<close>, \<^verbatim>\<open>QueryResult\<close> and
  \<^verbatim>\<open>QueryResponse\<close> of \<^verbatim>\<open>sidecar/app/models/query.py\<close> are not among the sources.
  Their fields are those of the data model of the spec. \<open>max_results\<close> caps a number of
  results and is a natural number; \<open>page_range\<close> is an inclusive pair of page numbers, as
  in the request \<^verbatim>\<open>"page_range": [1, 3]\<close> of the API contract. A result carries the type
  of its block, since \<^verbatim>\<open>apply_filters(results, query)\<close> is handed nothing else to decide
  the \<open>block_types\<close> filter with.
\<close>

record PerceptionQuery =
  q_document_id :: string
  q_query :: string
  q_mode :: string
  q_page_range :: "(nat \<times> nat) option"
  q_block_types :: "string list option"
  q_max_results :: nat

text \<open>
  Modelled from the spec: a result, with the fields of the data model of the spec and the type of
  its block (the model \<^verbatim>\<open>QueryResult\<close> is not among the sources).
\<close>

record QueryResult =
  qr_block_id :: string
  qr_page_number :: nat
  qr_block_type :: string
  qr_matched_text :: string
  qr_score :: rat
  qr_context :: string

text \<open>
  Modelled from the spec: the response, a list of results (the model \<^verbatim>\<open>QueryResponse\<close> is not among
  the sources).
\<close>

record QueryResponse =
  results :: "QueryResult list"

text \<open>
  The errors a query can fail with: the \<^verbatim>\<open>HTTPException\<close> that \<^verbatim>\<open>query_document\<close> raises,
  with its status code and message, and the \<open>InvalidQueryError\<close> of the error taxonomy of
  the spec.
\<close>

datatype error = HTTPException nat string | InvalidQueryError

text \<open>
  Modelled from the spec: \<^verbatim>\<open>apply_filters\<close> is called by \<^verbatim>\<open>query_document\<close> under the
  comment "Apply filters (page_range, block_types)" and is not among the sources. It
  keeps the results whose page lies in the page range and whose block type is one of
  the block types, each filter being optional.
\<close>

definition in_page_range :: "PerceptionQuery \<Rightarrow> QueryResult \<Rightarrow> bool" where
  "in_page_range q r =
     (case q_page_range q of
        None \<Rightarrow> True
      | Some (first_page, last_page) \<Rightarrow>
          first_page \<le> qr_page_number r \<and> qr_page_number r \<le> last_page)"

text \<open>
  Modelled from the spec: the block type filter of \<^verbatim>\<open>apply_filters\<close>.
\<close>

definition in_block_types :: "PerceptionQuery \<Rightarrow> QueryResult \<Rightarrow> bool" where
  "in_block_types q r =
     (case q_block_types q of
        None \<Rightarrow> True
      | Some types \<Rightarrow> qr_block_type r \<in> set types)"

text \<open>
  Modelled from the spec: a result passes \<^verbatim>\<open>apply_filters\<close> when it passes both filters.
\<close>

definition passes_filters :: "PerceptionQuery \<Rightarrow> QueryResult \<Rightarrow> bool" where
  "passes_filters q r \<longleftrightarrow> in_page_range q r \<and> in_block_types q r"

text \<open>
  Modelled from the spec: \<^verbatim>\<open>apply_filters(results, query)\<close> itself.
\<close>

definition apply_filters :: "QueryResult list \<Rightarrow> PerceptionQuery \<Rightarrow> QueryResult list" where
  "apply_filters rs q = filter (passes_filters q) rs"

text \<open>
  \<^verbatim>\<open>query_document\<close> itself. The two searches it calls are parameters; an exception
  raised in one of them is not caught and leaves \<^verbatim>\<open>query_document\<close> as it is.
  Step 2, the choice of the search by the mode, is \<open>execute_query\<close>: a mode that is
  neither \<^verbatim>\<open>"keyword"\<close> nor \<^verbatim>\<open>"regex"\<close> leaves the initial empty list.
\<close>

type_synonym search = "Document \<Rightarrow> string \<Rightarrow> error + QueryResult list"

definition execute_query ::
  "search \<Rightarrow> search \<Rightarrow> Document \<Rightarrow> PerceptionQuery \<Rightarrow> error + QueryResult list"
where
  "execute_query keyword_search regex_search doc q =
     (if q_mode q = ''keyword'' then keyword_search doc (q_query q)
      else if q_mode q = ''regex'' then regex_search doc (q_query q)
      else Inr [])"

definition query_document ::
  "DocumentStore \<Rightarrow> search \<Rightarrow> search \<Rightarrow> PerceptionQuery \<Rightarrow> error + QueryResponse"
where
  "query_document document_store keyword_search regex_search q =
     (case get document_store (q_document_id q) of
        None \<Rightarrow> Inl (HTTPException 404 ''Document not found'')
      | Some doc \<Rightarrow>
          (case execute_query keyword_search regex_search doc q of
             Inl e \<Rightarrow> Inl e
           | Inr rs \<Rightarrow> Inr \<lparr>results = take (q_max_results q) (apply_filters rs q)\<rparr>))"

subsection \<open>The searches\<close>

text \<open>
  A matcher decides for the text of one block whether it matches, and with which
  matched text and score.
\<close>

type_synonym matcher = "string \<Rightarrow> (string \<times> rat) option"

text \<open>
  Modelled from the spec: the lower-casing of the case-insensitive match, on the ASCII letters.
\<close>

definition lower :: "string \<Rightarrow> string" where
  "lower s = map ascii_lower s"

text \<open>
  Modelled from the spec: whether the text begins with the keyword, for the substring match.
\<close>

fun starts_with :: "string \<Rightarrow> string \<Rightarrow> bool" where
  "starts_with [] t = True"
| "starts_with (c # cs) [] = False"
| "starts_with (c # cs) (d # ds) = (c = d \<and> starts_with cs ds)"

text \<open>
  Modelled from the spec: the "matched occurrences" of the keyword in a text: the positions at which
  the keyword occurs.
\<close>

fun occurrences :: "string \<Rightarrow> string \<Rightarrow> nat" where
  "occurrences needle [] = 0"
| "occurrences needle (d # ds) =
     (if starts_with needle (d # ds) then 1 else 0) + occurrences needle ds"

text \<open>
  Modelled from the spec: the matching of \<^verbatim>\<open>keyword_search\<close> is not among the sources.
  "Case-insensitive substring match against each block's text; score = (matched
  occurrences / block length, normalized) with exact full-text equality scoring 1.0."
\<close>

definition keyword_match :: "string \<Rightarrow> matcher" where
  "keyword_match keyword t =
     (let n = occurrences (lower keyword) (lower t)
      in if n = 0 then None
         else Some (t, if lower t = lower keyword then 1
                       else min 1 (of_nat n / of_nat (length t))))"

text \<open>
  Modelled from the spec: how a search walks the document and orders what it finds is
  not among the sources. The blocks are visited page by page in reading order, a match
  becomes a result, and the results are ordered with "primary key descending score,
  secondary key ascending (page_number, reading-order index)" by a stable insertion
  sort. The reading-order index of a result is the position of its block among the
  blocks of its page.
\<close>

definition block_result :: "matcher \<Rightarrow> Page \<Rightarrow> Block \<Rightarrow> QueryResult option" where
  "block_result m page block =
     (case m (block_content block) of
        None \<Rightarrow> None
      | Some (matched, sc) \<Rightarrow>
          Some \<lparr>qr_block_id = block_id block, qr_page_number = page_number page,
                qr_block_type = block_type block, qr_matched_text = matched,
                qr_score = sc, qr_context = block_content block\<rparr>)"

text \<open>
  Modelled from the spec: the matches of a document, page by page and block by block in reading
  order.
\<close>

definition matching_blocks :: "matcher \<Rightarrow> Document \<Rightarrow> QueryResult list" where
  "matching_blocks m doc =
     concat (map (\<lambda>page. List.map_filter (block_result m page) (page_blocks page)) (pages doc))"

text \<open>
  Modelled from the spec: the reading-order index of a result, the position of its block among the
  blocks of its page.
\<close>

definition reading_index :: "Document \<Rightarrow> QueryResult \<Rightarrow> nat" where
  "reading_index doc r =
     (case find (\<lambda>page. page_number page = qr_page_number r) (pages doc) of
        None \<Rightarrow> 0
      | Some page \<Rightarrow>
          length (takeWhile (\<lambda>b. block_id b \<noteq> qr_block_id r) (page_blocks page)))"

text \<open>
  Modelled from the spec: the order of the results, "primary key descending score, secondary key
  ascending (page_number, reading-order index)".
\<close>

definition precedes :: "Document \<Rightarrow> QueryResult \<Rightarrow> QueryResult \<Rightarrow> bool" where
  "precedes doc a b \<longleftrightarrow>
     qr_score b < qr_score a \<or>
     (qr_score a = qr_score b \<and>
        (qr_page_number a < qr_page_number b \<or>
         (qr_page_number a = qr_page_number b \<and>
          reading_index doc a \<le> reading_index doc b)))"

text \<open>
  Modelled from the spec: one step of the stable insertion sort by that order.
\<close>

fun insert_ranked :: "Document \<Rightarrow> QueryResult \<Rightarrow> QueryResult list \<Rightarrow> QueryResult list" where
  "insert_ranked doc r [] = [r]"
| "insert_ranked doc r (x # xs) =
     (if precedes doc r x then r # x # xs else x # insert_ranked doc r xs)"

text \<open>
  Modelled from the spec: the results, sorted.
\<close>

definition rank :: "Document \<Rightarrow> QueryResult list \<Rightarrow> QueryResult list" where
  "rank doc rs = foldr (insert_ranked doc) rs []"

text \<open>
  Modelled from the spec: \<^verbatim>\<open>keyword_search\<close>, called by \<^verbatim>\<open>query_document\<close> and not
  among the sources: the ranked keyword matches of the document.
\<close>

definition keyword_search :: search where
  "keyword_search doc keyword = Inr (rank doc (matching_blocks (keyword_match keyword) doc))"

text \<open>
  Modelled from the spec: \<^verbatim>\<open>regex_search\<close>, called by \<^verbatim>\<open>query_document\<close> and not
  among the sources. "Caller-supplied pattern matched against each block's text; invalid
  patterns fail the request with a typed InvalidQueryError." The regular expression
  library is the parameter \<open>re_compile\<close>: \<open>None\<close> for a pattern that is syntactically
  invalid, the matcher of the pattern otherwise.
\<close>

definition regex_search :: "(string \<Rightarrow> matcher option) \<Rightarrow> search" where
  "regex_search re_compile doc pattern =
     (case re_compile pattern of
        None \<Rightarrow> Inl InvalidQueryError
      | Some m \<Rightarrow> Inr (rank doc (matching_blocks m doc)))"

subsection \<open>Sample data\<close>

definition sample_pdf :: "PdfPage list" where
  "sample_pdf =
     [\<lparr>pdf_page_width = 612, pdf_page_height = 792, get_text_blocks =
        [\<lparr>tb_x0 = 72, tb_y0 = 72, tb_x1 = 300, tb_y1 = 90, tb_text = ''Invoice #1234 '',
          tb_block_no = 0, tb_block_type = 0\<rparr>,
         \<lparr>tb_x0 = 72, tb_y0 = 100, tb_x1 = 300, tb_y1 = 120, tb_text = ''Date: 2026-01-28'',
          tb_block_no = 1, tb_block_type = 0\<rparr>]\<rparr>,
      \<lparr>pdf_page_width = 612, pdf_page_height = 792, get_text_blocks =
        [\<lparr>tb_x0 = 72, tb_y0 = 72, tb_x1 = 300, tb_y1 = 90, tb_text = ''Invoice total'',
          tb_block_no = 0, tb_block_type = 1\<rparr>,
         \<lparr>tb_x0 = 72, tb_y0 = 100, tb_x1 = 300, tb_y1 = 120, tb_text = ''INVOICE'',
          tb_block_no = 1, tb_block_type = 0\<rparr>]\<rparr>]"

definition sample_document :: Document where
  "sample_document =
     \<lparr>document_id = ''doc-123'',
      pages =
        [\<lparr>page_number = 1, page_width = 612, page_height = 792,
          page_blocks =
            [\<lparr>block_id = ''p1_b0'', block_type = ''paragraph'',
              block_content = ''Invoice #1234'',
              block_bbox = \<lparr>bbox_x = 72, bbox_y = 72, bbox_width = 228, bbox_height = 18\<rparr>,
              block_confidence = 1\<rparr>,
             \<lparr>block_id = ''p1_b1'', block_type = ''paragraph'',
              block_content = ''Date: 2026-01-28'',
              block_bbox = \<lparr>bbox_x = 72, bbox_y = 100, bbox_width = 228, bbox_height = 20\<rparr>,
              block_confidence = 1\<rparr>]\<rparr>,
         \<lparr>page_number = 2, page_width = 612, page_height = 792,
          page_blocks =
            [\<lparr>block_id = ''p2_b0'', block_type = ''figure'',
              block_content = ''Invoice total'',
              block_bbox = \<lparr>bbox_x = 72, bbox_y = 72, bbox_width = 228, bbox_height = 18\<rparr>,
              block_confidence = 1\<rparr>,
             \<lparr>block_id = ''p2_b1'', block_type = ''paragraph'',
              block_content = ''INVOICE'',
              block_bbox = \<lparr>bbox_x = 72, bbox_y = 100, bbox_width = 228, bbox_height = 20\<rparr>,
              block_confidence = 1\<rparr>]\<rparr>]\<rparr>"

text \<open>A stand-in for the regular expression library: only \<^verbatim>\<open>(\<close> is invalid, and a
  valid pattern matches the blocks that start with it.\<close>

definition sample_re_compile :: "string \<Rightarrow> matcher option" where
  "sample_re_compile pattern =
     (if pattern = ''('' then None
      else Some (\<lambda>t. if starts_with pattern t then Some (pattern, 1) else None))"

definition sample_query :: PerceptionQuery where
  "sample_query =
     \<lparr>q_document_id = ''doc-123'', q_query = ''Invoice'', q_mode = ''keyword'',
      q_page_range = None, q_block_types = None, q_max_results = 2\<rparr>"

definition sample_hits :: "QueryResult list" where
  "sample_hits =
     [\<lparr>qr_block_id = ''p2_b1'', qr_page_number = 2, qr_block_type = ''paragraph'',
       qr_matched_text = ''INVOICE'', qr_score = 1, qr_context = ''INVOICE''\<rparr>,
      \<lparr>qr_block_id = ''p1_b0'', qr_page_number = 1, qr_block_type = ''paragraph'',
       qr_matched_text = ''Invoice #1234'', qr_score = 1 / 13,
       qr_context = ''Invoice #1234''\<rparr>,
      \<lparr>qr_block_id = ''p2_b0'', qr_page_number = 2, qr_block_type = ''figure'',
       qr_matched_text = ''Invoice total'', qr_score = 1 / 13,
       qr_context = ''Invoice total''\<rparr>]"

text \<open>A stand-in for the recogniser of the loader variants, by the first bytes.\<close>

definition sample_sniff :: "string \<Rightarrow> string option" where
  "sample_sniff bytes =
     (if take 4 bytes = ''%PDF'' then Some ''application/pdf''
      else if take 4 bytes = [CHR 0x89, CHR ''P'', CHR ''N'', CHR ''G''] then Some ''image/png''
      else None)"

chapter \<open>Properties\<close>

section \<open>The virtual document provider\<close>

lemma provide_after_setContent:
  "provideTextDocumentContent toString (setContent toString u c p) u = c"
  by (simp add: provideTextDocumentContent_def setContent_def)

lemma provide_after_removeDocument:
  "provideTextDocumentContent toString (removeDocument toString u p) u = ''''"
  by (simp add: provideTextDocumentContent_def removeDocument_def)

lemma provide_after_clear:
  "provideTextDocumentContent toString (clear p) u = ''''"
  by (simp add: provideTextDocumentContent_def clear_def)

lemma provide_other_uri:
  "toString v \<noteq> toString u \<Longrightarrow>
   provideTextDocumentContent toString (setContent toString u c p) v =
   provideTextDocumentContent toString p v"
  by (simp add: provideTextDocumentContent_def setContent_def)

lemma provide_missing:
  "toString u \<notin> dom (documents p) \<Longrightarrow> provideTextDocumentContent toString p u = ''''"
  by (auto simp: provideTextDocumentContent_def split: option.splits)

text \<open>
  Claim C10. After \<^verbatim>\<open>setContent(u, c)\<close> the provider returns exactly \<open>c\<close> for \<open>u\<close>; after
  \<^verbatim>\<open>removeDocument(u)\<close> or \<^verbatim>\<open>clear()\<close> it returns the empty string for \<open>u\<close>; and
  \<^verbatim>\<open>setContent\<close> for \<open>u\<close> leaves what is returned for every other URI unchanged, a URI
  being another one when its string form, the key of the map, differs.
\<close>

theorem provider_set_get_remove:
  "provideTextDocumentContent toString (setContent toString u c p) u = c \<and>
   provideTextDocumentContent toString (removeDocument toString u p) u = '''' \<and>
   provideTextDocumentContent toString (clear p) u = '''' \<and>
   (toString v \<noteq> toString u \<longrightarrow>
      provideTextDocumentContent toString (setContent toString u c p) v =
      provideTextDocumentContent toString p v)"
  by (simp add: provide_after_setContent provide_after_removeDocument provide_after_clear
        provide_other_uri)

theorem provider_set_get_remove_witness:
  "(\<lambda>s. s) ''aletheia:b.md'' \<noteq> (\<lambda>s :: string. s) ''aletheia:a.md'' \<and>
   provideTextDocumentContent (\<lambda>s. s)
     (setContent (\<lambda>s. s) ''aletheia:a.md'' ''# A''
        (setContent (\<lambda>s. s) ''aletheia:b.md'' ''# B'' new_provider)) ''aletheia:b.md'' = ''# B'' \<and>
   provideTextDocumentContent (\<lambda>s. s)
     (setContent (\<lambda>s. s) ''aletheia:a.md'' ''# A''
        (setContent (\<lambda>s. s) ''aletheia:b.md'' ''# B'' new_provider)) ''aletheia:a.md'' = ''# A''"
  using provider_set_get_remove
    [of "\<lambda>s. s" "''aletheia:a.md''" "''# A''"
        "setContent (\<lambda>s. s) ''aletheia:b.md'' ''# B'' new_provider" "''aletheia:b.md''"]
  by (simp add: provideTextDocumentContent_def setContent_def new_provider_def)

section \<open>Looking up a document that is not there\<close>

lemma get_save_same: "get (save doc s) (document_id doc) = Some doc"
  by (simp add: get_def save_def)

lemma get_save_other: "doc_id \<noteq> document_id doc \<Longrightarrow> get (save doc s) doc_id = get s doc_id"
  by (simp add: get_def save_def)

lemma get_saved_documents:
  "get (foldr save docs new_store) doc_id = None \<longleftrightarrow> doc_id \<notin> document_id ` set docs"
proof (induction docs)
  case Nil
  show ?case by (simp add: get_def new_store_def)
next
  case (Cons doc docs)
  show ?case
  proof (cases "doc_id = document_id doc")
    case True
    then show ?thesis by (simp add: get_save_same)
  next
    case False
    then show ?thesis using Cons.IH by (simp add: get_save_other)
  qed
qed

text \<open>
  Claim C4. For a document id that is not in the store, \<^verbatim>\<open>DocumentStore.get\<close> gives
  the not-found value \<^verbatim>\<open>None\<close>, and it gives \<^verbatim>\<open>None\<close> for no other id: for a stored
  id it gives the very document that was stored, so that a missing document is never
  mistaken for a stored one, empty or not. After any sequence of saves the missing ids
  are exactly the ids of no saved document. The same holds of \<^verbatim>\<open>getTempDocument\<close> and
  its \<^verbatim>\<open>undefined\<close>.
\<close>

theorem missing_document_lookup:
  "(get s doc_id = None \<longleftrightarrow> doc_id \<notin> dom (store_documents s)) \<and>
   (\<forall>doc. store_documents s doc_id = Some doc \<longrightarrow> get s doc_id = Some doc) \<and>
   get (save document s) (document_id document) = Some document \<and>
   (get (foldr save docs new_store) doc_id = None \<longleftrightarrow> doc_id \<notin> document_id ` set docs) \<and>
   (getTempDocument temp doc_id = None \<longleftrightarrow> doc_id \<notin> dom temp) \<and>
   (\<forall>td. temp doc_id = Some td \<longrightarrow> getTempDocument temp doc_id = Some td)"
proof -
  have "get s doc_id = None \<longleftrightarrow> doc_id \<notin> dom (store_documents s)"
    by (auto simp: get_def)
  moreover have "\<forall>doc. store_documents s doc_id = Some doc \<longrightarrow> get s doc_id = Some doc"
    by (simp add: get_def)
  moreover have "getTempDocument temp doc_id = None \<longleftrightarrow> doc_id \<notin> dom temp"
    by (auto simp: getTempDocument_def)
  moreover have "\<forall>td. temp doc_id = Some td \<longrightarrow> getTempDocument temp doc_id = Some td"
    by (simp add: getTempDocument_def)
  ultimately show ?thesis
    using get_save_same [of document s] get_saved_documents [of docs doc_id] by blast
qed

theorem missing_document_lookup_witness:
  "store_documents (save sample_document new_store) ''doc-123'' = Some sample_document \<and>
   get (save sample_document new_store) ''doc-123'' = Some sample_document \<and>
   ''doc-999'' \<notin> dom (store_documents (save sample_document new_store)) \<and>
   get (save sample_document new_store) ''doc-999'' = None \<and>
   createTempDocument ''untitled:1'' 0 ''doc-123'' ''# Parsed'' Map.empty ''doc-123'' =
     Some \<lparr>td_uri = ''untitled:1'', td_documentId = ''doc-123'', td_createdAt = 0,
           td_content = ''# Parsed''\<rparr> \<and>
   getTempDocument (createTempDocument ''untitled:1'' 0 ''doc-123'' ''# Parsed'' Map.empty)
     ''doc-123'' =
     Some \<lparr>td_uri = ''untitled:1'', td_documentId = ''doc-123'', td_createdAt = 0,
           td_content = ''# Parsed''\<rparr>"
proof -
  let ?s = "save sample_document new_store"
  let ?temp = "createTempDocument ''untitled:1'' 0 ''doc-123'' ''# Parsed'' Map.empty"
  let ?td = "\<lparr>td_uri = ''untitled:1'', td_documentId = ''doc-123'', td_createdAt = 0,
           td_content = ''# Parsed''\<rparr>"
  have stored: "store_documents ?s ''doc-123'' = Some sample_document"
    by (simp add: save_def new_store_def sample_document_def)
  have missing: "''doc-999'' \<notin> dom (store_documents ?s)"
    by (simp add: save_def new_store_def sample_document_def)
  have temp: "?temp ''doc-123'' = Some ?td"
    by (simp add: createTempDocument_def)
  show ?thesis
    using stored missing temp
      missing_document_lookup [of ?s "''doc-123''" sample_document "[]" ?temp]
      missing_document_lookup [of ?s "''doc-999''" sample_document "[]" ?temp]
    by blast
qed

text \<open>
  The virtual document provider of the editor is not the document store. It answers
  with the empty string for a URI it has never seen, which is also what it answers for
  a virtual document that was set to empty content.
\<close>

lemma provider_missing_is_empty_string:
  "provideTextDocumentContent (\<lambda>u. u) new_provider ''aletheia:doc-999.md'' = '''' \<and>
   provideTextDocumentContent (\<lambda>u. u)
     (setContent (\<lambda>u. u) ''aletheia:doc-999.md'' '''' new_provider) ''aletheia:doc-999.md'' = ''''"
  by (simp add: provideTextDocumentContent_def setContent_def new_provider_def)

section \<open>The file type check of the parse command\<close>

lemma split_not_Nil: "split sep s \<noteq> []"
  by (induction s) (auto split: list.splits)

lemma split_no_sep: "sep \<notin> set s \<Longrightarrow> split sep s = [s]"
  by (induction s) auto

lemma split_with_sep: "sep \<in> set s \<Longrightarrow> \<exists>p q qs. split sep s = p # q # qs"
proof (induction s)
  case Nil
  then show ?case by simp
next
  case (Cons c cs)
  show ?case
  proof (cases "c = sep")
    case True
    then show ?thesis
      using split_not_Nil [of sep cs] by (cases "split sep cs") auto
  next
    case False
    with Cons.prems have "sep \<in> set cs" by simp
    then obtain p q qs where "split sep cs = p # q # qs"
      using Cons.IH by blast
    with False show ?thesis by simp
  qed
qed

lemma last_split: "last (split sep s) = rev (takeWhile (\<lambda>c. c \<noteq> sep) (rev s))"
proof (induction s)
  case Nil
  show ?case by simp
next
  case (Cons c cs)
  show ?case
  proof (cases "sep \<in> set cs")
    case True
    then obtain p q qs where sp: "split sep cs = p # q # qs"
      using split_with_sep by blast
    have "last (split sep (c # cs)) = last (split sep cs)"
      using sp by simp
    moreover have "takeWhile (\<lambda>c. c \<noteq> sep) (rev cs @ [c]) = takeWhile (\<lambda>c. c \<noteq> sep) (rev cs)"
      using True by (simp add: takeWhile_append1)
    ultimately show ?thesis using Cons.IH by simp
  next
    case notin: False
    then have cs: "split sep cs = [cs]"
      by (rule split_no_sep)
    have app: "takeWhile (\<lambda>c. c \<noteq> sep) (rev cs @ [c]) =
        rev cs @ takeWhile (\<lambda>c. c \<noteq> sep) [c]"
      using notin by (intro takeWhile_append2) auto
    have rhs: "rev (takeWhile (\<lambda>c. c \<noteq> sep) (rev (c # cs))) =
        rev (takeWhile (\<lambda>c. c \<noteq> sep) [c]) @ cs"
      by (simp only: rev.simps app rev_append rev_rev_ident)
    have lhs: "last (split sep (c # cs)) = (if c = sep then cs else c # cs)"
      using cs by simp
    show ?thesis
      unfolding rhs lhs by simp
  qed
qed

lemma isSupportedFile_extension:
  "isSupportedFile f \<longleftrightarrow>
   after_last_dot (toLowerCase (fsPath f)) \<in> {''pdf'', ''png'', ''jpg'', ''jpeg'', ''tiff''}"
  by (simp add: isSupportedFile_def pop_def split_not_Nil last_split after_last_dot_def)

text \<open>
  The pre-check of the parse command in the editor goes by the file name: it accepts a
  file exactly when the lower-cased text after the last dot of its path is one of pdf,
  png, jpg, jpeg, tiff, and it does not read the content. It is not the detection of
  the loader: a file it does not accept is replaced by one picked in a dialog, and every
  file is sent on to the sidecar.
\<close>

lemma file_type_by_extension:
  "(isSupportedFile f \<longleftrightarrow>
      after_last_dot (toLowerCase (fsPath f)) \<in> {''pdf'', ''png'', ''jpg'', ''jpeg'', ''tiff''}) \<and>
   isSupportedFile (f\<lparr>file_content := bytes\<rparr>) = isSupportedFile f"
  by (simp add: isSupportedFile_extension)

lemma same_content_different_extension:
  "file_content \<lparr>fsPath = ''/docs/Scan.PDF'', file_content = ''%PDF-1.4''\<rparr> =
   file_content \<lparr>fsPath = ''/docs/Scan.txt'', file_content = ''%PDF-1.4''\<rparr> \<and>
   isSupportedFile \<lparr>fsPath = ''/docs/Scan.PDF'', file_content = ''%PDF-1.4''\<rparr> \<and>
   \<not> isSupportedFile \<lparr>fsPath = ''/docs/Scan.txt'', file_content = ''%PDF-1.4''\<rparr>"
  by (simp add: isSupportedFile_def pop_def toLowerCase_def ascii_lower_def)

section \<open>The loader's detection of the document type\<close>

lemma detect_request_content:
  "detect_request sniff request = detect sniff (request_content request)"
  by (simp add: detect_request_def)

text \<open>
  Claim C5. The detection of the document type reads the content bytes of a request
  and nothing else: two requests with the same content get the same outcome, the same
  MIME type or the same error, whatever their file names and MIME type hints are.
\<close>

theorem detection_by_content:
  assumes "request_content a = request_content b"
  shows "detect_request sniff a = detect_request sniff b"
  using assms by (simp add: detect_request_content)

theorem detection_by_content_witness:
  "request_content
     \<lparr>request_filename = ''scan.pdf'', request_content = ''%PDF-1.4'',
      request_mime_type = ''application/pdf''\<rparr> =
   request_content
     \<lparr>request_filename = ''scan.txt'', request_content = ''%PDF-1.4'',
      request_mime_type = ''text/plain''\<rparr> \<and>
   detect_request sample_sniff
     \<lparr>request_filename = ''scan.txt'', request_content = ''%PDF-1.4'',
      request_mime_type = ''text/plain''\<rparr> = Inr ''application/pdf'' \<and>
   detect_request sample_sniff
     \<lparr>request_filename = ''scan.pdf'', request_content = ''%PDF-1.4'',
      request_mime_type = ''application/pdf''\<rparr> =
   detect_request sample_sniff
     \<lparr>request_filename = ''scan.txt'', request_content = ''%PDF-1.4'',
      request_mime_type = ''text/plain''\<rparr>"
proof -
  let ?a = "\<lparr>request_filename = ''scan.pdf'', request_content = ''%PDF-1.4'',
      request_mime_type = ''application/pdf''\<rparr>"
  let ?b = "\<lparr>request_filename = ''scan.txt'', request_content = ''%PDF-1.4'',
      request_mime_type = ''text/plain''\<rparr>"
  have same: "request_content ?a = request_content ?b"
    by simp
  have pdf: "detect_request sample_sniff ?b = Inr ''application/pdf''"
    by (simp add: detect_request_def detect_def sample_sniff_def)
  from detection_by_content [OF same, of sample_sniff] same pdf
  show ?thesis by simp
qed

section \<open>Escaping in the webview renderer\<close>

lemma replaceAll_append: "replaceAll c r (xs @ ys) = replaceAll c r xs @ replaceAll c r ys"
  by (simp add: replaceAll_def)

lemma replaceAll_Nil: "replaceAll c r [] = []"
  by (simp add: replaceAll_def)

lemma replaceAll_Cons: "replaceAll c r (x # xs) = (if x = c then r else [x]) @ replaceAll c r xs"
  by (simp add: replaceAll_def)

lemma escapeHtml_Nil: "escapeHtml [] = []"
  by (simp add: escapeHtml_def replaceAll_Nil)

lemma escapeHtml_single: "escapeHtml [c] = html_entity c"
  by (simp add: escapeHtml_def html_entity_def replaceAll_Cons replaceAll_Nil)

lemma escapeHtml_append: "escapeHtml (xs @ ys) = escapeHtml xs @ escapeHtml ys"
  by (simp add: escapeHtml_def replaceAll_append)

lemma escapeHtml_Cons: "escapeHtml (c # cs) = html_entity c @ escapeHtml cs"
  using escapeHtml_append [of "[c]" cs] by (simp add: escapeHtml_single)

lemma escapeHtml_entities: "escapeHtml s = concat (map html_entity s)"
  by (induction s) (simp_all add: escapeHtml_Nil escapeHtml_Cons)

lemma html_entity_no_markup: "x \<in> set (html_entity c) \<Longrightarrow> \<not> markup_char x"
  by (auto simp: html_entity_def markup_char_def split: if_splits)

lemma escapeHtml_no_markup: "filter markup_char (escapeHtml s) = []"
  by (auto simp: escapeHtml_entities filter_empty_conv dest: html_entity_no_markup)

lemma escapeHtml_set: "set (escapeHtml s) \<inter> {CHR ''<'', CHR ''>'', dq, sq} = {}"
proof -
  have "\<forall>x\<in>set (escapeHtml s). \<not> markup_char x"
    using escapeHtml_no_markup [of s] by (simp add: filter_empty_conv)
  then show ?thesis
    by (auto simp: markup_char_def)
qed

lemma filter_markup_renderBlock:
  "filter markup_char (renderBlock percent b) =
   filter markup_char (renderBlock percent (b\<lparr>br_text := ''''\<rparr>))"
proof -
  have sel: "br_type (b\<lparr>br_text := ''''\<rparr>) = br_type b"
    "br_confidence (b\<lparr>br_text := ''''\<rparr>) = br_confidence b"
    "br_text (b\<lparr>br_text := ''''\<rparr>) = ''''"
    by simp_all
  show ?thesis
    unfolding renderBlock_def filter_append
    by (simp only: sel escapeHtml_no_markup escapeHtml_Nil filter.simps(1))
qed

lemma filter_markup_renderBlocks:
  "filter markup_char (renderBlocks percent bs) =
   filter markup_char (renderBlocks percent (map (\<lambda>b. b\<lparr>br_text := ''''\<rparr>) bs))"
proof (induction bs)
  case Nil
  show ?case by (simp add: renderBlocks_def)
next
  case (Cons b bs)
  have "filter markup_char (renderBlocks percent (b # bs)) =
        filter markup_char (renderBlock percent b) @ filter markup_char (renderBlocks percent bs)"
    by (simp add: renderBlocks_def)
  also have "\<dots> = filter markup_char (renderBlock percent (b\<lparr>br_text := ''''\<rparr>)) @
        filter markup_char (renderBlocks percent (map (\<lambda>b. b\<lparr>br_text := ''''\<rparr>) bs))"
    using Cons.IH filter_markup_renderBlock [of percent b] by simp
  also have "\<dots> = filter markup_char (renderBlocks percent (map (\<lambda>b. b\<lparr>br_text := ''''\<rparr>) (b # bs)))"
    by (simp add: renderBlocks_def)
  finally show ?case .
qed

text \<open>
  The rendering of a block as a function of its text: a fixed context around three
  copies of the escaped text.
\<close>

lemma renderBlock_text:
  "\<exists>pre mid1 mid2 post. \<forall>t.
     renderBlock percent (b\<lparr>br_text := t\<rparr>) =
       pre @ escapeHtml t @ mid1 @ escapeHtml t @ mid2 @ escapeHtml t @ post"
proof (intro exI allI)
  fix t
  show "renderBlock percent (b\<lparr>br_text := t\<rparr>) =
     (''\<newline>        <div class='' @ [dq] @ ''block '' @
      (if br_type b = ''heading'' then ''block-heading'' else '''') @ [dq] @
      ''\<newline>             onclick='' @ [dq] @ ''this.classList.toggle('' @ [sq] @ ''selected'' @ [sq] @ '')'' @ [dq] @ ''>'' @
      ''\<newline>            <div class='' @ [dq] @ ''block-actions'' @ [dq] @ ''>'' @
      ''\<newline>                <button onclick='' @ [dq] @ ''insertBlock('' @ [sq]) @
     escapeHtml t @
     ([sq] @ '')'' @ [dq] @ ''>Insert</button>'' @
      ''\<newline>                <button onclick='' @ [dq] @ ''copyBlock('' @ [sq]) @
     escapeHtml t @
     ([sq] @ '')'' @ [dq] @ ''>Copy</button>'' @
      ''\<newline>            </div>'' @
      ''\<newline>            <div class='' @ [dq] @ ''block-text'' @ [dq] @ ''>'') @
     escapeHtml t @
     (''</div>'' @
      ''\<newline>            <div class='' @ [dq] @ ''confidence'' @ [dq] @ ''>Confidence: '' @
      percent (br_confidence b) @
      ''%</div>'' @
      ''\<newline>        </div>'' @
      ''\<newline>    '')"
    unfolding renderBlock_def by (simp only: append_assoc BlockResult.simps) simp
qed

text \<open>
  Claim C9. For every input string, the result of \<^verbatim>\<open>escapeHtml\<close> contains none of the
  characters \<^verbatim>\<open><\<close>, \<^verbatim>\<open>>\<close>, double quote and single quote: it is the input with
  every character replaced by its entity, the ampersand being replaced first, so that the
  ampersands of the entities are not escaped again. \<^verbatim>\<open>renderBlocks\<close> embeds the text of
  a block through \<^verbatim>\<open>escapeHtml\<close> only: what it generates for a block is a context that
  does not depend on the text, around the escaped text, and the markup characters of what
  it generates for a list of blocks are those of the template and of the formatted
  confidences, whatever the texts are.
\<close>

theorem escapeHtml_escapes_markup:
  "set (escapeHtml s) \<inter> {CHR ''<'', CHR ''>'', dq, sq} = {} \<and>
   escapeHtml s = concat (map html_entity s) \<and>
   renderBlocks percent blocks = concat (map (renderBlock percent) blocks) \<and>
   (\<exists>pre mid1 mid2 post. \<forall>t.
      renderBlock percent (b\<lparr>br_text := t\<rparr>) =
        pre @ escapeHtml t @ mid1 @ escapeHtml t @ mid2 @ escapeHtml t @ post) \<and>
   filter markup_char (renderBlocks percent blocks) =
     filter markup_char (renderBlocks percent (map (\<lambda>b. b\<lparr>br_text := ''''\<rparr>) blocks))"
proof -
  have "renderBlocks percent blocks = concat (map (renderBlock percent) blocks)"
    by (simp add: renderBlocks_def)
  with escapeHtml_set [of s] escapeHtml_entities [of s] renderBlock_text [of percent b]
    filter_markup_renderBlocks [of percent blocks]
  show ?thesis by blast
qed

section \<open>Block ids and page numbers of the ingestion loops\<close>

lemma sample_document_ingested: "pages sample_document = ingest_pdf sample_pdf"
  by (simp add: sample_document_def sample_pdf_def ingest_pdf_def pdf_page_blocks_def
        pdf_block_def enumerate_eq_zip strip_def isspace_def str.simps digit_char_def Let_def
        upt_rec [of 0] upt_rec [of 1] upt_rec [of 2])

lemma length_ingest_pdf: "length (ingest_pdf pdf) = length pdf"
  by (simp add: ingest_pdf_def)

lemma page_number_ingest_pdf:
  "i < length pdf \<Longrightarrow> page_number (ingest_pdf pdf ! i) = i + 1"
  by (simp add: ingest_pdf_def Let_def)

lemma page_numbers_ingest_pdf:
  "map page_number (ingest_pdf pdf) = [1..<Suc (length pdf)]"
proof -
  have "map page_number (ingest_pdf pdf) = map Suc [0..<length pdf]"
    by (simp add: ingest_pdf_def Let_def)
  then show ?thesis
    by (simp add: map_Suc_upt del: upt_Suc)
qed

text \<open>
  On the PDF path the id of the block at position \<open>j\<close> of the page at index
  \<open>page_num\<close> is the id the spec assigns for page \<open>page_num + 1\<close>.
\<close>

lemma block_id_pdf_page_blocks:
  assumes "j < length text_blocks"
  shows "block_id (pdf_page_blocks page_num text_blocks ! j) = spec_block_id (page_num + 1) j"
  using assms
  by (simp add: pdf_page_blocks_def pdf_block_def spec_block_id_def nth_enumerate_eq)

text \<open>
  Claim C6 fails on the image path. Whatever the image, \<^verbatim>\<open>_ingest_image\<close> emits one
  block whose id is \<^verbatim>\<open>b1\<close>, and no page and index give that id the form
  \<^verbatim>\<open>p{page}_b{index}\<close> that \<^verbatim>\<open>_ingest_pdf\<close> produces.
\<close>

theorem ingest_image_block_id:
  "map block_id (image_blocks ocr_text width height) = [''b1''] \<and>
   (\<forall>page index. spec_block_id page index \<noteq> ''b1'')"
  by (simp add: image_blocks_def spec_block_id_def)

text \<open>
  Claim C7. In the pages of a document the page at index \<open>i\<close> has page number
  \<open>i + 1\<close>: the page numbers of an ingested PDF of \<open>n\<close> pages are 1, 2, ..., \<open>n\<close>
  in this order, and an ingested image is the single page 1.
\<close>

theorem pipeline_page_numbers:
  "(\<forall>i < length (ingest_pdf pdf). page_number (ingest_pdf pdf ! i) = i + 1) \<and>
   map page_number (ingest_pdf pdf) = [1..<Suc (length pdf)] \<and>
   map page_number (ingest_image ocr_text width height) = [1]"
  using page_numbers_ingest_pdf [of pdf]
  by (simp add: length_ingest_pdf page_number_ingest_pdf ingest_image_def del: upt_Suc)

theorem pipeline_page_numbers_witness:
  "(1::nat) < length (ingest_pdf sample_pdf) \<and> page_number (ingest_pdf sample_pdf ! 1) = 2"
  using pipeline_page_numbers [of sample_pdf]
  by (simp add: length_ingest_pdf sample_pdf_def)

section \<open>The query endpoint\<close>

lemma query_document_stored:
  "get store (q_document_id q) = Some doc \<Longrightarrow>
   execute_query kw rx doc q = Inr hits \<Longrightarrow>
   query_document store kw rx q =
     Inr \<lparr>results = take (q_max_results q) (filter (passes_filters q) hits)\<rparr>"
  by (simp add: query_document_def apply_filters_def)

lemma sample_stored:
  "get (save sample_document new_store) ''doc-123'' = Some sample_document"
  by (simp add: get_def save_def sample_document_def)

lemma sample_keyword_hits:
  "keyword_search sample_document ''Invoice'' = Inr sample_hits"
  by (simp add: sample_document_def sample_hits_def keyword_search_def matching_blocks_def
        List.map_filter_simps block_result_def keyword_match_def lower_def ascii_lower_def
        rank_def precedes_def reading_index_def Let_def)

text \<open>
  Claim C1. For a stored document, the response of \<^verbatim>\<open>query_document\<close> is the first
  \<open>max_results\<close> of those matches that pass the page range and block type filters, in
  the order of the matches: the filters are applied to all matches and the truncation
  to what is left, so that the response has \<open>max_results\<close> results whenever that many
  matches pass the filters, and holds nothing that a filter excludes.
\<close>

theorem filters_before_truncation:
  assumes "get store (q_document_id q) = Some doc"
    and "execute_query kw rx doc q = Inr hits"
  shows "\<exists>response.
     query_document store kw rx q = Inr response \<and>
     results response = take (q_max_results q) (filter (passes_filters q) hits) \<and>
     length (results response) =
       min (q_max_results q) (length (filter (passes_filters q) hits)) \<and>
     set (results response) \<subseteq> {r \<in> set hits. passes_filters q r}"
proof -
  let ?rs = "take (q_max_results q) (filter (passes_filters q) hits)"
  have "query_document store kw rx q = Inr \<lparr>results = ?rs\<rparr>"
    using assms by (rule query_document_stored)
  moreover have "length ?rs = min (q_max_results q) (length (filter (passes_filters q) hits))"
    by (simp add: min.commute)
  moreover have "set ?rs \<subseteq> {r \<in> set hits. passes_filters q r}"
    using set_take_subset [of "q_max_results q" "filter (passes_filters q) hits"] by auto
  ultimately show ?thesis by simp
qed

text \<open>
  The sample query restricted to page 2, with room for two results: the match on page 1
  ranks second among the three matches and takes no slot, both matches of page 2 are
  returned.
\<close>

theorem filters_before_truncation_witness:
  "get (save sample_document new_store)
     (q_document_id (sample_query\<lparr>q_page_range := Some (2, 2)\<rparr>)) = Some sample_document \<and>
   execute_query keyword_search (regex_search sample_re_compile) sample_document
     (sample_query\<lparr>q_page_range := Some (2, 2)\<rparr>) = Inr sample_hits \<and>
   query_document (save sample_document new_store) keyword_search
     (regex_search sample_re_compile) (sample_query\<lparr>q_page_range := Some (2, 2)\<rparr>) =
   Inr \<lparr>results = [sample_hits ! 0, sample_hits ! 2]\<rparr>"
proof -
  let ?q = "sample_query\<lparr>q_page_range := Some (2, 2)\<rparr>"
  have stored: "get (save sample_document new_store) (q_document_id ?q) = Some sample_document"
    using sample_stored by (simp add: sample_query_def)
  have hits: "execute_query keyword_search (regex_search sample_re_compile) sample_document ?q
      = Inr sample_hits"
    using sample_keyword_hits by (simp add: execute_query_def sample_query_def)
  have "take (q_max_results ?q) (filter (passes_filters ?q) sample_hits) =
      [sample_hits ! 0, sample_hits ! 2]"
    by (simp add: sample_query_def sample_hits_def passes_filters_def in_page_range_def
          in_block_types_def)
  with filters_before_truncation [OF stored hits] stored hits
  show ?thesis by auto
qed

subsection \<open>The order of the results\<close>

lemma precedes_total: "precedes doc a b \<or> precedes doc b a"
  by (auto simp: precedes_def)

lemma precedes_trans: "precedes doc a b \<Longrightarrow> precedes doc b c \<Longrightarrow> precedes doc a c"
  by (auto simp: precedes_def)

lemma set_insert_ranked: "set (insert_ranked doc r xs) = insert r (set xs)"
  by (induction xs) auto

lemma sorted_insert_ranked:
  "sorted_wrt (precedes doc) xs \<Longrightarrow> sorted_wrt (precedes doc) (insert_ranked doc r xs)"
proof (induction xs)
  case Nil
  show ?case by simp
next
  case (Cons x xs)
  show ?case
  proof (cases "precedes doc r x")
    case True
    then have "\<forall>y\<in>set xs. precedes doc r y"
      using Cons.prems precedes_trans by auto
    with True Cons.prems show ?thesis by simp
  next
    case False
    then have "precedes doc x r"
      using precedes_total by blast
    with False Cons show ?thesis
      by (auto simp: set_insert_ranked)
  qed
qed

lemma sorted_rank: "sorted_wrt (precedes doc) (rank doc rs)"
  by (induction rs) (simp_all add: rank_def sorted_insert_ranked)

lemma sorted_wrt_filter_take:
  "sorted_wrt P xs \<Longrightarrow> sorted_wrt P (take n (filter Q xs))"
  by (simp add: sorted_wrt_filter sorted_wrt_take)

lemma sorted_execute_query:
  assumes "execute_query keyword_search (regex_search re_compile) doc q = Inr hits"
  shows "sorted_wrt (precedes doc) hits"
proof (cases "q_mode q = ''keyword''")
  case True
  with assms have "hits = rank doc (matching_blocks (keyword_match (q_query q)) doc)"
    by (simp add: execute_query_def keyword_search_def)
  then show ?thesis by (simp add: sorted_rank)
next
  case not_keyword: False
  show ?thesis
  proof (cases "q_mode q = ''regex''")
    case True
    with not_keyword assms obtain m where "hits = rank doc (matching_blocks m doc)"
      by (auto simp: execute_query_def regex_search_def split: option.splits)
    then show ?thesis by (simp add: sorted_rank)
  next
    case False
    with not_keyword assms have "hits = []"
      by (simp add: execute_query_def)
    then show ?thesis by simp
  qed
qed

text \<open>
  Claim C2. In every response of \<^verbatim>\<open>query_document\<close> a result stands before another
  only if its score is higher, or the scores are equal and its page number and
  reading-order index, in this order, are not greater; and the response has at most
  \<open>max_results\<close> results.
\<close>

theorem results_ranked_and_capped:
  assumes "get store (q_document_id q) = Some doc"
    and "query_document store keyword_search (regex_search re_compile) q = Inr response"
  shows "sorted_wrt (precedes doc) (results response) \<and>
         length (results response) \<le> q_max_results q"
proof -
  obtain hits
    where hits: "execute_query keyword_search (regex_search re_compile) doc q = Inr hits"
      and resp: "response = \<lparr>results = take (q_max_results q) (filter (passes_filters q) hits)\<rparr>"
    using assms by (auto simp: query_document_def apply_filters_def split: sum.splits)
  have "sorted_wrt (precedes doc) hits"
    using hits by (rule sorted_execute_query)
  then have "sorted_wrt (precedes doc) (take (q_max_results q) (filter (passes_filters q) hits))"
    by (rule sorted_wrt_filter_take)
  with resp show ?thesis by simp
qed

theorem results_ranked_and_capped_witness:
  "get (save sample_document new_store) (q_document_id sample_query) = Some sample_document \<and>
   query_document (save sample_document new_store) keyword_search
     (regex_search sample_re_compile) sample_query =
     Inr \<lparr>results = [sample_hits ! 0, sample_hits ! 1]\<rparr> \<and>
   sorted_wrt (precedes sample_document)
     (results \<lparr>results = [sample_hits ! 0, sample_hits ! 1]\<rparr>) \<and>
   length (results \<lparr>results = [sample_hits ! 0, sample_hits ! 1]\<rparr>) \<le> q_max_results sample_query"
proof -
  have stored: "get (save sample_document new_store) (q_document_id sample_query) =
      Some sample_document"
    using sample_stored by (simp add: sample_query_def)
  have hits: "execute_query keyword_search (regex_search sample_re_compile) sample_document
      sample_query = Inr sample_hits"
    using sample_keyword_hits by (simp add: execute_query_def sample_query_def)
  have "take (q_max_results sample_query) (filter (passes_filters sample_query) sample_hits) =
      [sample_hits ! 0, sample_hits ! 1]"
    by (simp add: sample_query_def sample_hits_def passes_filters_def in_page_range_def
          in_block_types_def)
  with query_document_stored [OF stored hits]
  have response: "query_document (save sample_document new_store) keyword_search
      (regex_search sample_re_compile) sample_query =
      Inr \<lparr>results = [sample_hits ! 0, sample_hits ! 1]\<rparr>"
    by simp
  from results_ranked_and_capped [OF stored response] stored response
  show ?thesis by blast
qed

subsection \<open>Invalid patterns\<close>

text \<open>
  \<^verbatim>\<open>query_document\<close> catches nothing: for a stored document an error of the search is
  the outcome of the query. For a document id that is not in the store it raises the
  error 404 before it looks at the mode or the pattern.
\<close>

lemma query_document_propagates:
  assumes "get store (q_document_id q) = Some doc"
    and "execute_query kw rx doc q = Inl e"
  shows "query_document store kw rx q = Inl e"
  using assms by (simp add: query_document_def)

lemma query_document_missing_document:
  assumes "get store (q_document_id q) = None"
  shows "query_document store kw rx q = Inl (HTTPException 404 ''Document not found'')"
  using assms by (simp add: query_document_def)

text \<open>
  Claim C3. A regex query against a stored document whose pattern is syntactically
  invalid fails with \<open>InvalidQueryError\<close>: the outcome is that error and no response,
  neither one with every block nor an empty one, and no other error, whatever the
  keyword search is.
\<close>

theorem invalid_regex_fails:
  assumes "get store (q_document_id q) = Some doc"
    and "q_mode q = ''regex''"
    and "re_compile (q_query q) = None"
  shows "query_document store kw (regex_search re_compile) q = Inl InvalidQueryError \<and>
         (\<forall>response. query_document store kw (regex_search re_compile) q \<noteq> Inr response) \<and>
         (\<forall>code message.
            query_document store kw (regex_search re_compile) q \<noteq>
              Inl (HTTPException code message))"
proof -
  have "execute_query kw (regex_search re_compile) doc q = Inl InvalidQueryError"
    using assms(2,3) by (simp add: execute_query_def regex_search_def)
  with assms(1)
  have "query_document store kw (regex_search re_compile) q = Inl InvalidQueryError"
    by (rule query_document_propagates)
  then show ?thesis by simp
qed

theorem invalid_regex_fails_witness:
  "get (save sample_document new_store)
     (q_document_id (sample_query\<lparr>q_query := ''('', q_mode := ''regex''\<rparr>)) =
     Some sample_document \<and>
   q_mode (sample_query\<lparr>q_query := ''('', q_mode := ''regex''\<rparr>) = ''regex'' \<and>
   sample_re_compile (q_query (sample_query\<lparr>q_query := ''('', q_mode := ''regex''\<rparr>)) = None \<and>
   query_document (save sample_document new_store) keyword_search
     (regex_search sample_re_compile) (sample_query\<lparr>q_query := ''('', q_mode := ''regex''\<rparr>) =
   Inl InvalidQueryError"
proof -
  let ?q = "sample_query\<lparr>q_query := ''('', q_mode := ''regex''\<rparr>"
  have stored: "get (save sample_document new_store) (q_document_id ?q) = Some sample_document"
    using sample_stored by (simp add: sample_query_def)
  have regex: "q_mode ?q = ''regex''"
    by simp
  have invalid: "sample_re_compile (q_query ?q) = None"
    by (simp add: sample_re_compile_def)
  from invalid_regex_fails
      [of "save sample_document new_store" "?q" sample_document sample_re_compile
          keyword_search, OF stored regex invalid]
    stored regex invalid
  show ?thesis by blast
qed

end
